theory Spec2Isabelle
  imports Main
begin

section \<open>The rule \<open>no-space-in-parens\<close>\<close>

text \<open>
  A shallow embedding of \<^verbatim>\<open>lib/rules/no-space-in-parens.js\<close>. The rule is a closure
  created by \<^verbatim>\<open>create(context)\<close>; its \<^verbatim>\<open>Program\<close> handler walks
  \<^verbatim>\<open>sourceCode.tokensAndComments\<close> with \<^verbatim>\<open>forEach\<close> and hands reports to
  \<^verbatim>\<open>context.report\<close>. Here the reports are the value returned, a read of a property of
  \<^verbatim>\<open>undefined\<close> is the value \<open>Inl TypeError\<close>, and the closure's captured variables
  (\<^verbatim>\<open>ALWAYS\<close>, \<^verbatim>\<open>options\<close>, \<^verbatim>\<open>sourceCode\<close>) are explicit arguments.
\<close>

subsection \<open>Tokens, fixes, reports\<close>

record position =
  line :: nat
  column :: nat

record sourceLocation =
  loc_start :: position
  loc_end :: position

text \<open>
  A token or comment of the host. \<open>tok_type\<close> is \<^verbatim>\<open>token.type\<close> (\<^verbatim>\<open>"Punctuator"\<close>,
  \<^verbatim>\<open>"String"\<close>, \<^verbatim>\<open>"Line"\<close>, \<^verbatim>\<open>"Block"\<close>, \<^verbatim>\<open>"Identifier"\<close>, ...), \<open>tok_value\<close> is
  \<^verbatim>\<open>token.value\<close>, \<open>tok_range\<close> is \<^verbatim>\<open>token.range\<close> and \<open>tok_loc\<close> is \<^verbatim>\<open>token.loc\<close>.
  The host's tokens carry \<^verbatim>\<open>start\<close> and \<^verbatim>\<open>end\<close> equal to \<^verbatim>\<open>range[0]\<close> and
  \<^verbatim>\<open>range[1]\<close>.
\<close>

record token =
  tok_type :: string
  tok_value :: string
  tok_range :: "nat \<times> nat"
  tok_loc :: sourceLocation

definition tok_start :: "token \<Rightarrow> nat" where
  "tok_start t = fst (tok_range t)"

definition tok_end :: "token \<Rightarrow> nat" where
  "tok_end t = snd (tok_range t)"

text \<open>
  The fixer's three operations used by the rule: \<^verbatim>\<open>fixer.removeRange([a, b])\<close>,
  \<^verbatim>\<open>fixer.insertTextAfter(token, text)\<close> and \<^verbatim>\<open>fixer.insertTextBefore(token, text)\<close>.
\<close>

datatype fixCommand =
  removeRange nat nat
  | insertTextAfter token string
  | insertTextBefore token string

text \<open>
  The argument of \<^verbatim>\<open>context.report\<close>; \<^verbatim>\<open>node\<close> is always the \<^verbatim>\<open>Program\<close> node and is
  left out.
\<close>

record report =
  rep_loc :: position
  rep_message :: string
  rep_fix :: fixCommand

definition MISSING_SPACE_MESSAGE :: string where
  "MISSING_SPACE_MESSAGE = ''There must be a space inside this paren.''"

definition REJECTED_SPACE_MESSAGE :: string where
  "REJECTED_SPACE_MESSAGE = ''There should be no spaces inside this paren.''"

definition UNNECESSARY_SPACE_MESSAGE :: string where
  "UNNECESSARY_SPACE_MESSAGE =
     ''There must be no space inside this paren with STRING expression.''"

datatype error = TypeError

subsection \<open>Options (lines 48--61)\<close>

text \<open>
  \<^verbatim>\<open>options\<close> starts as \<^verbatim>\<open>{}\<close>; a flag that was never assigned is \<^verbatim>\<open>undefined\<close>,
  which every use tests for truth only, so it is \<open>False\<close> here. \<open>opt_empty\<close> is
  \<^verbatim>\<open>options.empty\<close>.
\<close>

record options =
  braceException :: bool
  bracketException :: bool
  parenException :: bool
  parenStringException :: bool
  opt_empty :: bool

record rule =
  ALWAYS :: bool
  rule_options :: options

text \<open>
  \<^verbatim>\<open>context.options\<close> as the schema admits it: no option, the mode alone, or the mode and an
  object whose \<^verbatim>\<open>exceptions\<close> property is an array or missing.
\<close>

datatype contextOptions =
  NoOptions
  | ModeOnly string
  | ModeAndObject string "string list option"

definition noOptions :: options where
  "noOptions = \<lparr>braceException = False, bracketException = False, parenException = False,
     parenStringException = False, opt_empty = False\<rparr>"

definition optionsOf :: "string list \<Rightarrow> options" where
  "optionsOf exceptionsArrayOptions =
     (if length exceptionsArrayOptions \<noteq> 0 then
        \<lparr>braceException = (''{}'' \<in> set exceptionsArrayOptions),
         bracketException = (''[]'' \<in> set exceptionsArrayOptions),
         parenException = (''()'' \<in> set exceptionsArrayOptions),
         parenStringException = (''(STRING)'' \<in> set exceptionsArrayOptions),
         opt_empty = (''empty'' \<in> set exceptionsArrayOptions)\<rparr>
      else noOptions)"

text \<open>
  \<^verbatim>\<open>create\<close>, up to the helpers: with two options and no \<^verbatim>\<open>exceptions\<close> property,
  \<^verbatim>\<open>exceptionsArrayOptions.length\<close> reads a property of \<^verbatim>\<open>undefined\<close>.
\<close>

definition create :: "contextOptions \<Rightarrow> error + rule" where
  "create opts =
     (case opts of
        NoOptions \<Rightarrow> Inr \<lparr>ALWAYS = False, rule_options = optionsOf []\<rparr>
      | ModeOnly m \<Rightarrow> Inr \<lparr>ALWAYS = (m = ''always''), rule_options = optionsOf []\<rparr>
      | ModeAndObject m None \<Rightarrow> Inl TypeError
      | ModeAndObject m (Some xs) \<Rightarrow>
          Inr \<lparr>ALWAYS = (m = ''always''), rule_options = optionsOf xs\<rparr>)"

subsection \<open>\<^verbatim>\<open>getExceptions\<close> (lines 69--97)\<close>

record exceptions =
  openers :: "string list"
  closers :: "string list"

definition push :: "exceptions \<Rightarrow> string \<Rightarrow> string \<Rightarrow> exceptions" where
  "push e opener closer = \<lparr>openers = openers e @ [opener], closers = closers e @ [closer]\<rparr>"

definition getExceptions :: "options \<Rightarrow> exceptions" where
  "getExceptions opts =
     (let e0 = \<lparr>openers = [], closers = []\<rparr>;
          e1 = (if braceException opts then push e0 ''{'' ''}'' else e0);
          e2 = (if bracketException opts then push e1 ''['' '']'' else e1);
          e3 = (if parenException opts then push e2 ''('' '')'' else e2);
          e4 = (if opt_empty opts then push e3 '')'' ''('' else e3)
      in e4)"

subsection \<open>The host's helpers\<close>

record sourceCode =
  text_of :: string
  tokensAndComments :: "token list"

definition isWhitespace :: "char \<Rightarrow> bool" where
  "isWhitespace c =
     (c = CHR '' '' \<or> c = CHR 0x09 \<or> c = CHR 0x0A \<or> c = CHR 0x0B \<or> c = CHR 0x0C \<or> c = CHR 0x0D)"

definition slice :: "string \<Rightarrow> nat \<Rightarrow> nat \<Rightarrow> string" where
  "slice s a b = take (b - a) (drop a s)"

text \<open>
  Modelled from the spec: \<^verbatim>\<open>sourceCode.isSpaceBetweenTokens\<close> belongs to the host and is
  not part of the repository. The spec's words are "a space currently exists between
  them" and "any whitespace exists between" the two tokens: some character of the source
  text between the end of the first and the start of the second token is whitespace.
\<close>

definition isSpaceBetweenTokens :: "sourceCode \<Rightarrow> token \<Rightarrow> token \<Rightarrow> bool" where
  "isSpaceBetweenTokens sc first second =
     list_ex isWhitespace (slice (text_of sc) (snd (tok_range first)) (fst (tok_range second)))"

text \<open>
  Modelled from the spec: \<^verbatim>\<open>astUtils.isTokenOnSameLine\<close> is in \<^verbatim>\<open>lib/ast-utils.js\<close>,
  which is not among the sources. The spec's words are "they are on the same source line":
  the line the left token ends on is the line the right token starts on.
\<close>

definition isTokenOnSameLine :: "token \<Rightarrow> token \<Rightarrow> bool" where
  "isTokenOnSameLine left right = (line (loc_end (tok_loc left)) = line (loc_start (tok_loc right)))"

subsection \<open>The exception tests and the four predicates (lines 109--215)\<close>

definition isOpenerException :: "rule \<Rightarrow> token \<Rightarrow> bool" where
  "isOpenerException r t =
     (tok_type t = ''Punctuator'' \<and> tok_value t \<in> set (openers (getExceptions (rule_options r))))"

definition isCloserException :: "rule \<Rightarrow> token \<Rightarrow> bool" where
  "isCloserException r t =
     (tok_type t = ''Punctuator'' \<and> tok_value t \<in> set (closers (getExceptions (rule_options r))))"

text \<open>
  The four predicates on two tokens that exist. Each of them dereferences both arguments
  (\<^verbatim>\<open>left.type\<close>, \<^verbatim>\<open>right.type\<close>, or the ranges inside \<^verbatim>\<open>isSpaceBetweenTokens\<close>), so a call
  with \<^verbatim>\<open>undefined\<close> is a \<^verbatim>\<open>TypeError\<close>; that case is in \<open>checkParen\<close> below.
\<close>

definition shouldOpenerHaveSpace :: "rule \<Rightarrow> sourceCode \<Rightarrow> token \<Rightarrow> token \<Rightarrow> bool" where
  "shouldOpenerHaveSpace r sc left right =
     (if isSpaceBetweenTokens sc left right then False
      else if ALWAYS r then
        (if tok_type right = ''Punctuator'' \<and> tok_value right = '')'' then False
         else \<not> isOpenerException r right)
      else isOpenerException r right)"

definition shouldCloserHaveSpace :: "rule \<Rightarrow> sourceCode \<Rightarrow> token \<Rightarrow> token \<Rightarrow> bool" where
  "shouldCloserHaveSpace r sc left right =
     (if tok_type left = ''Punctuator'' \<and> tok_value left = ''('' then False
      else if isSpaceBetweenTokens sc left right then False
      else if ALWAYS r then \<not> isCloserException r left
      else isCloserException r left)"

definition shouldOpenerRejectSpace :: "rule \<Rightarrow> sourceCode \<Rightarrow> token \<Rightarrow> token \<Rightarrow> bool" where
  "shouldOpenerRejectSpace r sc left right =
     (if tok_type right = ''Line'' then False
      else if \<not> isTokenOnSameLine left right then False
      else if \<not> isSpaceBetweenTokens sc left right then False
      else if ALWAYS r then isOpenerException r right
      else \<not> isOpenerException r right)"

definition shouldCloserRejectSpace :: "rule \<Rightarrow> sourceCode \<Rightarrow> token \<Rightarrow> token \<Rightarrow> bool" where
  "shouldCloserRejectSpace r sc left right =
     (if tok_type left = ''Punctuator'' \<and> tok_value left = ''('' then False
      else if \<not> isTokenOnSameLine left right then False
      else if \<not> isSpaceBetweenTokens sc left right then False
      else if ALWAYS r then isCloserException r left
      else \<not> isCloserException r left)"

subsection \<open>JavaScript's array reads, property reads and short-circuit operators\<close>

text \<open>
  \<^verbatim>\<open>tokens[k]\<close> is \<^verbatim>\<open>undefined\<close> (\<open>None\<close>) when \<open>k\<close> is negative or not below the length;
  the index is an \<open>int\<close> because the source computes \<^verbatim>\<open>i - 1\<close> and \<^verbatim>\<open>i - 2\<close>.
\<close>

definition at :: "token list \<Rightarrow> int \<Rightarrow> token option" where
  "at tokens k = (if 0 \<le> k \<and> k < int (length tokens) then Some (tokens ! nat k) else None)"

text \<open>\<^verbatim>\<open>x.p === s\<close>: a \<^verbatim>\<open>TypeError\<close> when \<open>x\<close> is \<^verbatim>\<open>undefined\<close>.\<close>

definition propIs :: "token option \<Rightarrow> (token \<Rightarrow> string) \<Rightarrow> string \<Rightarrow> error + bool" where
  "propIs x p s = (case x of None \<Rightarrow> Inl TypeError | Some t \<Rightarrow> Inr (p t = s))"

text \<open>\<^verbatim>\<open>a && b\<close> and \<^verbatim>\<open>a || b\<close> on booleans: \<open>b\<close> counts only when \<open>a\<close> does not decide.\<close>

definition andAlso :: "error + bool \<Rightarrow> error + bool \<Rightarrow> error + bool" where
  "andAlso a b = (case a of Inl e \<Rightarrow> Inl e | Inr x \<Rightarrow> if x then b else Inr False)"

definition orElse :: "error + bool \<Rightarrow> error + bool \<Rightarrow> error + bool" where
  "orElse a b = (case a of Inl e \<Rightarrow> Inl e | Inr x \<Rightarrow> if x then Inr True else b)"

text \<open>A call \<^verbatim>\<open>f(x)\<close> of one of the four predicates, whose argument may be \<^verbatim>\<open>undefined\<close>.\<close>

definition call :: "(token \<Rightarrow> bool) \<Rightarrow> token option \<Rightarrow> error + bool" where
  "call f x = (case x of None \<Rightarrow> Inl TypeError | Some t \<Rightarrow> Inr (f t))"

subsection \<open>The string in parens (lines 217--251)\<close>

definition checkStringInParen :: "sourceCode \<Rightarrow> token \<Rightarrow> token \<Rightarrow> token \<Rightarrow> report list" where
  "checkStringInParen sc prevToken t nextToken =
     (if isSpaceBetweenTokens sc prevToken t then
        [\<lparr>rep_loc = loc_start (tok_loc t), rep_message = UNNECESSARY_SPACE_MESSAGE,
          rep_fix = removeRange (tok_end prevToken) (tok_start t)\<rparr>]
      else [])
     @
     (if isSpaceBetweenTokens sc t nextToken then
        [\<lparr>rep_loc = loc_start (tok_loc nextToken), rep_message = UNNECESSARY_SPACE_MESSAGE,
          rep_fix = removeRange (tok_end t) (tok_start nextToken)\<rparr>]
      else [])"

definition stringInParenAlreadyChecked :: "token list \<Rightarrow> nat \<Rightarrow> error + bool" where
  "stringInParenAlreadyChecked tokens i =
     orElse
       (andAlso (propIs (at tokens (int i)) tok_type ''Punctuator'')
         (andAlso (propIs (at tokens (int i)) tok_value ''('')
           (andAlso (propIs (at tokens (int i + 1)) tok_type ''String'')
             (propIs (at tokens (int i + 2)) tok_value '')''))))
       (orElse
         (andAlso (propIs (at tokens (int i)) tok_type ''String'')
           (andAlso (propIs (at tokens (int i - 1)) tok_value ''('')
             (propIs (at tokens (int i + 1)) tok_value '')'')))
         (andAlso (propIs (at tokens (int i)) tok_type ''Punctuator'')
           (andAlso (propIs (at tokens (int i)) tok_value '')'')
             (andAlso (propIs (at tokens (int i - 1)) tok_type ''String'')
               (andAlso (propIs (at tokens (int i - 2)) tok_type ''Punctuator'')
                 (propIs (at tokens (int i - 2)) tok_value ''(''))))))"

subsection \<open>The callback of \<^verbatim>\<open>forEach\<close> and the scan (lines 258--329)\<close>

text \<open>Lines 266--271: the condition of the first \<^verbatim>\<open>if\<close>.\<close>

definition isStringInParen :: "rule \<Rightarrow> token option \<Rightarrow> token \<Rightarrow> token option \<Rightarrow> error + bool" where
  "isStringInParen r prevToken t nextToken =
     andAlso (Inr (parenStringException (rule_options r)))
       (andAlso (Inr (tok_type t = ''String''))
         (andAlso (propIs prevToken tok_type ''Punctuator'')
           (andAlso (propIs nextToken tok_type ''Punctuator'')
             (andAlso (propIs prevToken tok_value ''('')
               (propIs nextToken tok_value '')'')))))"

text \<open>
  Lines 281--327: the general adjacency logic. The four reports; then the chain of
  \<^verbatim>\<open>if\<close> / \<^verbatim>\<open>else if\<close>, each condition a \<^verbatim>\<open>&&\<close> whose right side is a call. The fix
  of a rejected space reads \<^verbatim>\<open>nextToken.range\<close> (opener) or \<^verbatim>\<open>prevToken.range\<close> (closer);
  the call before it has dereferenced that neighbour already.
\<close>

definition missingAfter :: "token \<Rightarrow> report" where
  "missingAfter t = \<lparr>rep_loc = loc_start (tok_loc t), rep_message = MISSING_SPACE_MESSAGE,
     rep_fix = insertTextAfter t '' ''\<rparr>"

definition missingBefore :: "token \<Rightarrow> report" where
  "missingBefore t = \<lparr>rep_loc = loc_start (tok_loc t), rep_message = MISSING_SPACE_MESSAGE,
     rep_fix = insertTextBefore t '' ''\<rparr>"

definition rejected :: "token \<Rightarrow> nat \<Rightarrow> nat \<Rightarrow> report" where
  "rejected t a b = \<lparr>rep_loc = loc_start (tok_loc t), rep_message = REJECTED_SPACE_MESSAGE,
     rep_fix = removeRange a b\<rparr>"

definition checkParen ::
  "rule \<Rightarrow> sourceCode \<Rightarrow> token option \<Rightarrow> token \<Rightarrow> token option \<Rightarrow> error + report list" where
  "checkParen r sc prevToken t nextToken =
     (if tok_type t \<noteq> ''Punctuator'' then Inr []
      else if tok_value t \<noteq> ''('' \<and> tok_value t \<noteq> '')'' then Inr []
      else
        case andAlso (Inr (tok_value t = ''('')) (call (shouldOpenerHaveSpace r sc t) nextToken) of
          Inl e \<Rightarrow> Inl e
        | Inr True \<Rightarrow> Inr [missingAfter t]
        | Inr False \<Rightarrow>
        (case andAlso (Inr (tok_value t = ''('')) (call (shouldOpenerRejectSpace r sc t) nextToken) of
          Inl e \<Rightarrow> Inl e
        | Inr True \<Rightarrow>
            (case nextToken of
               None \<Rightarrow> Inl TypeError
             | Some n \<Rightarrow> Inr [rejected t (snd (tok_range t)) (fst (tok_range n))])
        | Inr False \<Rightarrow>
        (case andAlso (Inr (tok_value t = '')''))
                (call (\<lambda>p. shouldCloserHaveSpace r sc p t) prevToken) of
          Inl e \<Rightarrow> Inl e
        | Inr True \<Rightarrow> Inr [missingBefore t]
        | Inr False \<Rightarrow>
        (case andAlso (Inr (tok_value t = '')''))
                (call (\<lambda>p. shouldCloserRejectSpace r sc p t) prevToken) of
          Inl e \<Rightarrow> Inl e
        | Inr True \<Rightarrow>
            (case prevToken of
               None \<Rightarrow> Inl TypeError
             | Some p \<Rightarrow> Inr [rejected t (snd (tok_range p)) (fst (tok_range t))])
        | Inr False \<Rightarrow> Inr []))))"

text \<open>
  The callback at token \<open>t\<close> with index \<open>i\<close>: what it reports, or the \<^verbatim>\<open>TypeError\<close> it
  throws. \<^verbatim>\<open>checkStringInParen\<close> runs only after the condition has read a property of both
  neighbours, so both exist there.
\<close>

definition checkToken :: "rule \<Rightarrow> sourceCode \<Rightarrow> token \<Rightarrow> nat \<Rightarrow> error + report list" where
  "checkToken r sc t i =
     (let tokens = tokensAndComments sc;
          prevToken = at tokens (int i - 1);
          nextToken = at tokens (int i + 1)
      in case isStringInParen r prevToken t nextToken of
           Inl e \<Rightarrow> Inl e
         | Inr True \<Rightarrow>
             (case (prevToken, nextToken) of
                (Some p, Some n) \<Rightarrow> Inr (checkStringInParen sc p t n)
              | _ \<Rightarrow> Inl TypeError)
         | Inr False \<Rightarrow>
             (case andAlso (Inr (parenStringException (rule_options r)))
                     (stringInParenAlreadyChecked tokens i) of
                Inl e \<Rightarrow> Inl e
              | Inr True \<Rightarrow> Inr []
              | Inr False \<Rightarrow> checkParen r sc prevToken t nextToken))"

text \<open>
  \<^verbatim>\<open>tokens.forEach\<close>: the callback at every index in order. A throw ends the scan; the
  reports made before it are already with the host.
\<close>

datatype outcome =
  Completed "report list"
  | Threw error "report list"

fun forEachFrom :: "rule \<Rightarrow> sourceCode \<Rightarrow> nat \<Rightarrow> token list \<Rightarrow> report list \<Rightarrow> outcome" where
  "forEachFrom r sc i [] reported = Completed reported"
| "forEachFrom r sc i (t # ts) reported =
     (case checkToken r sc t i of
        Inl e \<Rightarrow> Threw e reported
      | Inr rs \<Rightarrow> forEachFrom r sc (Suc i) ts (reported @ rs))"

definition checkParenSpaces :: "rule \<Rightarrow> sourceCode \<Rightarrow> outcome" where
  "checkParenSpaces r sc = forEachFrom r sc 0 (tokensAndComments sc) []"

section \<open>The host around the rule\<close>

subsection \<open>Applying fixes\<close>

text \<open>
  Modelled from the spec: the host applies the fixes; a fix is "insert a single space
  character" at an offset or "delete the character range [start, end)". \<open>fixRange\<close> and
  \<open>fixText\<close> are the range and text the fixer's operations denote (after a token: at its
  end; before a token: at its start), \<open>applyFix\<close> replaces that range of the text, and
  \<open>applyFixes\<close> applies the fixes of a list of reports from the last to the first, so that
  the offsets of the earlier ones (the reports come in source order) still hold.
\<close>

definition fixRange :: "fixCommand \<Rightarrow> nat \<times> nat" where
  "fixRange f =
     (case f of
        removeRange a b \<Rightarrow> (a, b)
      | insertTextAfter t s \<Rightarrow> (snd (tok_range t), snd (tok_range t))
      | insertTextBefore t s \<Rightarrow> (fst (tok_range t), fst (tok_range t)))"

definition fixText :: "fixCommand \<Rightarrow> string" where
  "fixText f =
     (case f of
        removeRange a b \<Rightarrow> []
      | insertTextAfter t s \<Rightarrow> s
      | insertTextBefore t s \<Rightarrow> s)"

definition applyFix :: "fixCommand \<Rightarrow> string \<Rightarrow> string" where
  "applyFix f s = take (fst (fixRange f)) s @ fixText f @ drop (snd (fixRange f)) s"

definition applyFixes :: "string \<Rightarrow> report list \<Rightarrow> string" where
  "applyFixes s reports = foldr (\<lambda>rp. applyFix (rep_fix rp)) reports s"

subsection \<open>A tokenizer for the fragment of the spec's scenarios\<close>

text \<open>
  The tokenizer is the host's. The inputs of the spec's section 8 are written with parens,
  identifiers, double-quoted string literals and blanks only; \<open>tokenize\<close> covers this
  fragment and nothing else (\<open>None\<close> on any other character and on an unterminated
  string). Lines count from 1 and columns from 0, as the host's locations do; a string
  token's value keeps its quotes.
\<close>

definition mkToken ::
  "string \<Rightarrow> string \<Rightarrow> nat \<Rightarrow> nat \<Rightarrow> position \<Rightarrow> position \<Rightarrow> token" where
  "mkToken ty v a b p q =
     \<lparr>tok_type = ty, tok_value = v, tok_range = (a, b),
      tok_loc = \<lparr>loc_start = p, loc_end = q\<rparr>\<rparr>"

definition advance :: "position \<Rightarrow> char \<Rightarrow> position" where
  "advance p c =
     (if c = CHR 0x0A then \<lparr>line = Suc (line p), column = 0\<rparr>
      else \<lparr>line = line p, column = Suc (column p)\<rparr>)"

definition isIdentifierChar :: "char \<Rightarrow> bool" where
  "isIdentifierChar c =
     (c \<in> set ''abcdefghijklmnopqrstuvwxyzABCDEFGHIJKLMNOPQRSTUVWXYZ0123456789_$'')"

datatype lexState =
  Between
  | InString nat position string
  | InIdentifier nat position string

text \<open>What a character read outside a token does: the tokens it completes and the next state.\<close>

definition openAt :: "char \<Rightarrow> nat \<Rightarrow> position \<Rightarrow> (token list \<times> lexState) option" where
  "openAt c off pos =
     (if isWhitespace c then Some ([], Between)
      else if c = CHR ''('' \<or> c = CHR '')'' then
        Some ([mkToken ''Punctuator'' [c] off (Suc off) pos (advance pos c)], Between)
      else if c = CHR 0x22 then Some ([], InString off pos [c])
      else if isIdentifierChar c then Some ([], InIdentifier off pos [c])
      else None)"

fun lexFrom :: "lexState \<Rightarrow> nat \<Rightarrow> position \<Rightarrow> string \<Rightarrow> token list option" where
  "lexFrom st off pos [] =
     (case st of
        Between \<Rightarrow> Some []
      | InString a p acc \<Rightarrow> None
      | InIdentifier a p acc \<Rightarrow> Some [mkToken ''Identifier'' acc a off p pos])"
| "lexFrom st off pos (c # cs) =
     (case st of
        Between \<Rightarrow>
          (case openAt c off pos of
             None \<Rightarrow> None
           | Some (out, st') \<Rightarrow>
               map_option (\<lambda>ts. out @ ts) (lexFrom st' (Suc off) (advance pos c) cs))
      | InString a p acc \<Rightarrow>
          (if c = CHR 0x22 then
             map_option (\<lambda>ts. mkToken ''String'' (acc @ [c]) a (Suc off) p (advance pos c) # ts)
               (lexFrom Between (Suc off) (advance pos c) cs)
           else if c = CHR 0x0A then None
           else lexFrom (InString a p (acc @ [c])) (Suc off) (advance pos c) cs)
      | InIdentifier a p acc \<Rightarrow>
          (if isIdentifierChar c then
             lexFrom (InIdentifier a p (acc @ [c])) (Suc off) (advance pos c) cs
           else
             (case openAt c off pos of
                None \<Rightarrow> None
              | Some (out, st') \<Rightarrow>
                  map_option (\<lambda>ts. mkToken ''Identifier'' acc a off p pos # out @ ts)
                    (lexFrom st' (Suc off) (advance pos c) cs))))"

definition tokenize :: "string \<Rightarrow> token list option" where
  "tokenize s = lexFrom Between 0 \<lparr>line = 1, column = 0\<rparr> s"

text \<open>
  One round of the host on a text: tokenize, scan, apply the fixes. \<open>None\<close> when the text
  is outside the fragment or the scan throws.
\<close>

definition lint :: "rule \<Rightarrow> string \<Rightarrow> report list option" where
  "lint r s =
     (case tokenize s of
        None \<Rightarrow> None
      | Some ts \<Rightarrow>
          (case checkParenSpaces r \<lparr>text_of = s, tokensAndComments = ts\<rparr> of
             Completed ds \<Rightarrow> Some ds
           | Threw e ds \<Rightarrow> None))"

definition fixedText :: "rule \<Rightarrow> string \<Rightarrow> string option" where
  "fixedText r s = map_option (applyFixes s) (lint r s)"

text \<open>
  The round trip of one scenario: the scan of the text completes, and the scan of the
  fixed text completes with no report.
\<close>

definition roundTrip :: "rule \<Rightarrow> string \<Rightarrow> bool" where
  "roundTrip r s =
     (case fixedText r s of
        None \<Rightarrow> False
      | Some s' \<Rightarrow> lint r s' = Some [])"

section \<open>Example sources\<close>

text \<open>A rule as \<^verbatim>\<open>create\<close> builds it from a mode and a list of exception names.\<close>

definition ruleOf :: "bool \<Rightarrow> string list \<Rightarrow> rule" where
  "ruleOf always xs = \<lparr>ALWAYS = always, rule_options = optionsOf xs\<rparr>"

text \<open>A token on the first line, where the column is the offset.\<close>

definition onLine1 :: "string \<Rightarrow> string \<Rightarrow> nat \<Rightarrow> nat \<Rightarrow> token" where
  "onLine1 ty v a b = mkToken ty v a b \<lparr>line = 1, column = a\<rparr> \<lparr>line = 1, column = b\<rparr>"

text \<open>The program \<^verbatim>\<open>"use strict";\<close>.\<close>

definition useStrictSource :: sourceCode where
  \<open>useStrictSource =
     \<lparr>text_of = ''"use strict";'',
      tokensAndComments =
        [onLine1 ''String'' ''"use strict"'' 0 12, onLine1 ''Punctuator'' '';'' 12 13]\<rparr>\<close>

text \<open>The truncated streams \<^verbatim>\<open>(\<close> and \<^verbatim>\<open>)\<close>.\<close>

definition loneOpenerSource :: sourceCode where
  "loneOpenerSource =
     \<lparr>text_of = ''('', tokensAndComments = [onLine1 ''Punctuator'' ''('' 0 1]\<rparr>"

definition loneCloserSource :: sourceCode where
  "loneCloserSource =
     \<lparr>text_of = '')'', tokensAndComments = [onLine1 ''Punctuator'' '')'' 0 1]\<rparr>"

text \<open>\<^verbatim>\<open>( "foo" )\<close> and \<^verbatim>\<open>("foo")\<close>.\<close>

definition fooSpacedSource :: sourceCode where
  \<open>fooSpacedSource =
     \<lparr>text_of = ''( "foo" )'',
      tokensAndComments =
        [onLine1 ''Punctuator'' ''('' 0 1, onLine1 ''String'' ''"foo"'' 2 7,
         onLine1 ''Punctuator'' '')'' 8 9]\<rparr>\<close>

definition fooTightSource :: sourceCode where
  \<open>fooTightSource =
     \<lparr>text_of = ''("foo")'',
      tokensAndComments =
        [onLine1 ''Punctuator'' ''('' 0 1, onLine1 ''String'' ''"foo"'' 1 6,
         onLine1 ''Punctuator'' '')'' 6 7]\<rparr>\<close>

text \<open>An opening paren, a line break and a blank, then \<^verbatim>\<open>a)\<close>.\<close>

definition lineBreakSource :: sourceCode where
  "lineBreakSource =
     \<lparr>text_of = CHR ''('' # CHR 0x0A # '' a)'',
      tokensAndComments =
        [onLine1 ''Punctuator'' ''('' 0 1,
         mkToken ''Identifier'' ''a'' 3 4 \<lparr>line = 2, column = 1\<rparr> \<lparr>line = 2, column = 2\<rparr>,
         mkToken ''Punctuator'' '')'' 4 5 \<lparr>line = 2, column = 2\<rparr> \<lparr>line = 2, column = 3\<rparr>]\<rparr>"

text \<open>\<^verbatim>\<open>( )\<close>, \<^verbatim>\<open>(a)\<close> and \<^verbatim>\<open>( /* c */ a)\<close>.\<close>

definition emptySpacedSource :: sourceCode where
  "emptySpacedSource =
     \<lparr>text_of = ''( )'',
      tokensAndComments = [onLine1 ''Punctuator'' ''('' 0 1, onLine1 ''Punctuator'' '')'' 2 3]\<rparr>"

definition identSource :: sourceCode where
  "identSource =
     \<lparr>text_of = ''(a)'',
      tokensAndComments =
        [onLine1 ''Punctuator'' ''('' 0 1, onLine1 ''Identifier'' ''a'' 1 2,
         onLine1 ''Punctuator'' '')'' 2 3]\<rparr>"

definition blockCommentSource :: sourceCode where
  "blockCommentSource =
     \<lparr>text_of = ''( /* c */ a)'',
      tokensAndComments =
        [onLine1 ''Punctuator'' ''('' 0 1, onLine1 ''Block'' '' c '' 2 9,
         onLine1 ''Identifier'' ''a'' 10 11, onLine1 ''Punctuator'' '')'' 11 12]\<rparr>"

text \<open>The program \<^verbatim>\<open>"a"; ( "foo" )\<close>: a string literal first, the triple at the indices 2 to 4.\<close>

definition leadingStringSource :: sourceCode where
  \<open>leadingStringSource =
     \<lparr>text_of = ''"a"; ( "foo" )'',
      tokensAndComments =
        [onLine1 ''String'' ''"a"'' 0 3, onLine1 ''Punctuator'' '';'' 3 4,
         onLine1 ''Punctuator'' ''('' 5 6, onLine1 ''String'' ''"foo"'' 7 12,
         onLine1 ''Punctuator'' '')'' 13 14]\<rparr>\<close>

section \<open>Lemmas about the scan\<close>

lemmas js_defs = andAlso_def orElse_def propIs_def call_def

lemmas example_defs = ruleOf_def optionsOf_def noOptions_def onLine1_def mkToken_def
  useStrictSource_def loneOpenerSource_def loneCloserSource_def fooSpacedSource_def
  fooTightSource_def lineBreakSource_def emptySpacedSource_def identSource_def
  blockCommentSource_def leadingStringSource_def

lemmas scan_defs = checkParenSpaces_def checkToken_def isStringInParen_def
  stringInParenAlreadyChecked_def checkStringInParen_def checkParen_def at_def
  shouldOpenerHaveSpace_def shouldOpenerRejectSpace_def shouldCloserHaveSpace_def
  shouldCloserRejectSpace_def isOpenerException_def isCloserException_def getExceptions_def
  push_def isSpaceBetweenTokens_def isTokenOnSameLine_def slice_def isWhitespace_def
  missingAfter_def missingBefore_def rejected_def
  tok_start_def tok_end_def MISSING_SPACE_MESSAGE_def REJECTED_SPACE_MESSAGE_def
  UNNECESSARY_SPACE_MESSAGE_def

lemma at_nth: "i < length tokens \<Longrightarrow> at tokens (int i) = Some (tokens ! i)"
  by (simp add: at_def)

lemma at_next: "Suc i < length tokens \<Longrightarrow> at tokens (int i + 1) = Some (tokens ! Suc i)"
  by (simp add: at_def nat_add_distrib)

lemma at_next2:
  "Suc (Suc i) < length tokens \<Longrightarrow> at tokens (int i + 2) = Some (tokens ! Suc (Suc i))"
  by (simp add: at_def nat_add_distrib)

text \<open>A scan that completes has run the callback at every index, and holds its reports.\<close>

lemma forEachFrom_reports:
  "forEachFrom r sc k ts acc = Completed ds \<Longrightarrow> j < length ts \<Longrightarrow>
   \<exists>rs. checkToken r sc (ts ! j) (k + j) = Inr rs \<and> set rs \<subseteq> set ds \<and> set acc \<subseteq> set ds"
proof (induction ts arbitrary: k acc j)
  case Nil
  then show ?case by simp
next
  case (Cons t ts)
  from Cons.prems(1) obtain rs where rs: "checkToken r sc t k = Inr rs"
    and rest: "forEachFrom r sc (Suc k) ts (acc @ rs) = Completed ds"
    by (auto split: sum.splits)
  show ?case
  proof (cases j)
    case 0
    show ?thesis
    proof (cases ts)
      case Nil
      with rest rs 0 show ?thesis by auto
    next
      case (Cons u us)
      then have "0 < length ts" by simp
      from Cons.IH[OF rest this] rs 0 show ?thesis by auto
    qed
  next
    case (Suc j')
    with Cons.prems(2) have "j' < length ts" by simp
    from Cons.IH[OF rest this] Suc show ?thesis by auto
  qed
qed

lemma scan_reports:
  assumes "checkParenSpaces r sc = Completed ds" and "i < length (tokensAndComments sc)"
    and "checkToken r sc (tokensAndComments sc ! i) i = Inr rs"
  shows "set rs \<subseteq> set ds"
  using forEachFrom_reports[of r sc 0 "tokensAndComments sc" "[]" ds i] assms
  by (auto simp: checkParenSpaces_def)

text \<open>The callback at the three positions of a \<^verbatim>\<open>(\<close>, string, \<^verbatim>\<open>)\<close> triple.\<close>

lemma triple_opener:
  assumes "parenStringException (rule_options r)"
    and "tokensAndComments sc = tokens"
    and "Suc (Suc i) < length tokens"
    and "tok_type (tokens ! i) = ''Punctuator''" and "tok_value (tokens ! i) = ''(''"
    and "tok_type (tokens ! Suc i) = ''String''"
    and "tok_value (tokens ! Suc (Suc i)) = '')''"
  shows "checkToken r sc (tokens ! i) i = Inr []"
proof -
  have "at tokens (int i) = Some (tokens ! i)" using assms(3) by (simp add: at_def)
  moreover have "at tokens (int i + 1) = Some (tokens ! Suc i)" using assms(3) by (simp add: at_def nat_add_distrib)
  moreover have "at tokens (int i + 2) = Some (tokens ! Suc (Suc i))"
    using assms(3) by (rule at_next2)
  ultimately show ?thesis
    using assms
    by (simp add: checkToken_def isStringInParen_def stringInParenAlreadyChecked_def js_defs)
qed

lemma triple_string:
  assumes "parenStringException (rule_options r)"
    and "tokensAndComments sc = tokens"
    and "Suc (Suc i) < length tokens"
    and "tok_type (tokens ! i) = ''Punctuator''" and "tok_value (tokens ! i) = ''(''"
    and "tok_type (tokens ! Suc i) = ''String''"
    and "tok_type (tokens ! Suc (Suc i)) = ''Punctuator''"
    and "tok_value (tokens ! Suc (Suc i)) = '')''"
  shows "checkToken r sc (tokens ! Suc i) (Suc i) =
     Inr (checkStringInParen sc (tokens ! i) (tokens ! Suc i) (tokens ! Suc (Suc i)))"
proof -
  have "at tokens (int (Suc i) - 1) = Some (tokens ! i)" using assms(3) by (simp add: at_def)
  moreover have "at tokens (int (Suc i) + 1) = Some (tokens ! Suc (Suc i))"
    using assms(3) by (rule at_next)
  ultimately show ?thesis
    using assms by (simp add: checkToken_def isStringInParen_def js_defs)
qed

lemma triple_closer:
  assumes "parenStringException (rule_options r)"
    and "tokensAndComments sc = tokens"
    and "Suc (Suc i) < length tokens"
    and "tok_type (tokens ! i) = ''Punctuator''" and "tok_value (tokens ! i) = ''(''"
    and "tok_type (tokens ! Suc i) = ''String''"
    and "tok_type (tokens ! Suc (Suc i)) = ''Punctuator''"
    and "tok_value (tokens ! Suc (Suc i)) = '')''"
  shows "checkToken r sc (tokens ! Suc (Suc i)) (Suc (Suc i)) = Inr []"
proof -
  have "at tokens (int (Suc (Suc i)) - 2) = Some (tokens ! i)" using assms(3) by (simp add: at_def)
  moreover have "at tokens (int (Suc (Suc i)) - 1) = Some (tokens ! Suc i)"
    using assms(3) by (simp add: at_def nat_add_distrib)
  moreover have "at tokens (int (Suc (Suc i))) = Some (tokens ! Suc (Suc i))"
    using assms(3) by (rule at_nth)
  ultimately show ?thesis
    using assms
    by (simp add: checkToken_def isStringInParen_def stringInParenAlreadyChecked_def js_defs)
qed

text \<open>The general logic reports at most once.\<close>

lemma checkParen_at_most_one: "checkParen r sc p t n = Inr rs \<Longrightarrow> length rs \<le> 1"
  by (auto simp: checkParen_def js_defs split: if_splits sum.splits bool.splits option.splits)

lemma needs_excludes_rejects_opener:
  "\<not> (shouldOpenerHaveSpace r sc l n \<and> shouldOpenerRejectSpace r sc l n)"
  by (auto simp: shouldOpenerHaveSpace_def shouldOpenerRejectSpace_def split: if_splits)

lemma needs_excludes_rejects_closer:
  "\<not> (shouldCloserHaveSpace r sc p l \<and> shouldCloserRejectSpace r sc p l)"
  by (auto simp: shouldCloserHaveSpace_def shouldCloserRejectSpace_def split: if_splits)

lemma create_ruleOf:
  "create (ModeAndObject m (Some xs)) = Inr (ruleOf (m = ''always'') xs) \<and>
   create (ModeOnly m) = Inr (ruleOf (m = ''always'') []) \<and>
   create NoOptions = Inr (ruleOf False [])"
  by (simp add: create_def ruleOf_def)

lemma checkToken_punctuator_at_most_one:
  assumes "tok_type t \<noteq> ''String''" and "checkToken r sc t i = Inr rs"
  shows "length rs \<le> 1"
proof -
  let ?c = "andAlso (Inr (parenStringException (rule_options r)))
    (stringInParenAlreadyChecked (tokensAndComments sc) i)"
  have no: "isStringInParen r p t n = Inr False" for p n
    using assms(1) by (simp add: isStringInParen_def js_defs)
  have eq: "checkToken r sc t i =
      (case ?c of
         Inl e \<Rightarrow> Inl e
       | Inr True \<Rightarrow> Inr []
       | Inr False \<Rightarrow>
           checkParen r sc (at (tokensAndComments sc) (int i - 1)) t
             (at (tokensAndComments sc) (int i + 1)))"
    by (simp add: checkToken_def no Let_def)
  show ?thesis
  proof (cases ?c)
    case (Inl e)
    with eq assms(2) show ?thesis by simp
  next
    case (Inr b)
    show ?thesis
    proof (cases b)
      case True
      with Inr eq assms(2) show ?thesis by simp
    next
      case False
      with Inr eq assms(2) have "checkParen r sc (at (tokensAndComments sc) (int i - 1)) t
             (at (tokensAndComments sc) (int i + 1)) = Inr rs" by simp
      then show ?thesis by (rule checkParen_at_most_one)
    qed
  qed
qed

text \<open>
  With the \<^verbatim>\<open>(STRING)\<close> exception, a string literal as the first token of any stream ends
  the scan at once: \<^verbatim>\<open>prevToken\<close> is \<^verbatim>\<open>tokens[-1]\<close>.
\<close>

lemma leading_string_throws:
  assumes "parenStringException (rule_options r)"
    and "tokensAndComments sc = t # ts" and "tok_type t = ''String''"
  shows "checkToken r sc t 0 = Inl TypeError"
    and "checkParenSpaces r sc = Threw TypeError []"
proof -
  show first: "checkToken r sc t 0 = Inl TypeError"
    using assms(1,3) by (simp add: checkToken_def isStringInParen_def js_defs at_def)
  show "checkParenSpaces r sc = Threw TypeError []"
    using first assms(2) by (simp add: checkParenSpaces_def)
qed

text \<open>A paren with no token on its inner side: the predicates are called with \<^verbatim>\<open>undefined\<close>.\<close>

lemma checkParen_no_neighbour:
  "tok_type t = ''Punctuator'' \<Longrightarrow> tok_value t = ''('' \<Longrightarrow>
     checkParen r sc p t None = Inl TypeError"
  "tok_type t = ''Punctuator'' \<Longrightarrow> tok_value t = '')'' \<Longrightarrow>
     checkParen r sc None t n = Inl TypeError"
  by (simp_all add: checkParen_def js_defs)

text \<open>The tokenizer on the example sources.\<close>

lemma tokenize_examples:
  "tokenize (text_of fooSpacedSource) = Some (tokensAndComments fooSpacedSource)"
  "tokenize (text_of fooTightSource) = Some (tokensAndComments fooTightSource)"
  "tokenize (text_of emptySpacedSource) = Some (tokensAndComments emptySpacedSource)"
  "tokenize (text_of identSource) = Some (tokensAndComments identSource)"
  "tokenize (text_of lineBreakSource) = Some (tokensAndComments lineBreakSource)"
  by (simp_all add: tokenize_def openAt_def advance_def isIdentifierChar_def isWhitespace_def
      example_defs)

text \<open>
  The three callbacks of a triple. With the \<^verbatim>\<open>(STRING)\<close> exception on and a triple \<^verbatim>\<open>(\<close>,
  string literal, \<^verbatim>\<open>)\<close> at the indices \<open>i\<close>, \<open>i + 1\<close>, \<open>i + 2\<close> of the stream, under either
  mode: the callback at the string reports, for each gap of the triple that holds whitespace, the unnecessary-space
  message with a fix removing the range from the end of the gap's left token to the start
  of its right token, and nothing else; the callbacks at the two parens report nothing, so
  no missing-space or rejected-space report is made for the three tokens. A scan that
  completes holds the reports of the string's callback.
\<close>

lemma string_in_paren_callbacks:
  assumes "parenStringException (rule_options r)"
    and "tokensAndComments sc = tokens"
    and "Suc (Suc i) < length tokens"
    and "tok_type (tokens ! i) = ''Punctuator''" and "tok_value (tokens ! i) = ''(''"
    and "tok_type (tokens ! Suc i) = ''String''"
    and "tok_type (tokens ! Suc (Suc i)) = ''Punctuator''"
    and "tok_value (tokens ! Suc (Suc i)) = '')''"
  shows "checkToken (r\<lparr>ALWAYS := mode\<rparr>) sc (tokens ! i) i = Inr [] \<and>
     checkToken (r\<lparr>ALWAYS := mode\<rparr>) sc (tokens ! Suc i) (Suc i) =
       Inr ((if isSpaceBetweenTokens sc (tokens ! i) (tokens ! Suc i) then
               [\<lparr>rep_loc = loc_start (tok_loc (tokens ! Suc i)),
                 rep_message = UNNECESSARY_SPACE_MESSAGE,
                 rep_fix = removeRange (tok_end (tokens ! i)) (tok_start (tokens ! Suc i))\<rparr>]
             else []) @
            (if isSpaceBetweenTokens sc (tokens ! Suc i) (tokens ! Suc (Suc i)) then
               [\<lparr>rep_loc = loc_start (tok_loc (tokens ! Suc (Suc i))),
                 rep_message = UNNECESSARY_SPACE_MESSAGE,
                 rep_fix = removeRange (tok_end (tokens ! Suc i))
                   (tok_start (tokens ! Suc (Suc i)))\<rparr>]
             else [])) \<and>
     checkToken (r\<lparr>ALWAYS := mode\<rparr>) sc (tokens ! Suc (Suc i)) (Suc (Suc i)) = Inr [] \<and>
     (\<forall>ds rs. checkParenSpaces (r\<lparr>ALWAYS := mode\<rparr>) sc = Completed ds \<and>
        checkToken (r\<lparr>ALWAYS := mode\<rparr>) sc (tokens ! Suc i) (Suc i) = Inr rs \<longrightarrow>
        set rs \<subseteq> set ds)"
proof -
  let ?r = "r\<lparr>ALWAYS := mode\<rparr>"
  have str: "parenStringException (rule_options ?r)" using assms(1) by simp
  have first: "checkToken ?r sc (tokens ! i) i = Inr []"
    using str assms(2-6,8) by (rule triple_opener)
  have second: "checkToken ?r sc (tokens ! Suc i) (Suc i) =
      Inr (checkStringInParen sc (tokens ! i) (tokens ! Suc i) (tokens ! Suc (Suc i)))"
    using str assms(2-) by (rule triple_string)
  have third: "checkToken ?r sc (tokens ! Suc (Suc i)) (Suc (Suc i)) = Inr []"
    using str assms(2-) by (rule triple_closer)
  have len: "Suc i < length (tokensAndComments sc)" using assms(2,3) by simp
  have scan: "set rs \<subseteq> set ds"
    if "checkParenSpaces ?r sc = Completed ds"
      and "checkToken ?r sc (tokens ! Suc i) (Suc i) = Inr rs" for ds rs
    using scan_reports[OF that(1) len] that(2) assms(2) by simp
  from first second third scan show ?thesis
    by (simp add: checkStringInParen_def)
qed

text \<open>
  The spec's two inputs, under both modes: \<^verbatim>\<open>( "foo" )\<close> gets the two reports and
  \<^verbatim>\<open>("foo")\<close> none.
\<close>

lemma string_in_paren_examples:
  "checkParenSpaces (ruleOf True [''(STRING)'']) fooSpacedSource =
     Completed
       [\<lparr>rep_loc = \<lparr>line = 1, column = 2\<rparr>, rep_message = UNNECESSARY_SPACE_MESSAGE,
         rep_fix = removeRange 1 2\<rparr>,
        \<lparr>rep_loc = \<lparr>line = 1, column = 8\<rparr>, rep_message = UNNECESSARY_SPACE_MESSAGE,
         rep_fix = removeRange 7 8\<rparr>] \<and>
   checkParenSpaces (ruleOf False [''(STRING)'']) fooSpacedSource =
     Completed
       [\<lparr>rep_loc = \<lparr>line = 1, column = 2\<rparr>, rep_message = UNNECESSARY_SPACE_MESSAGE,
         rep_fix = removeRange 1 2\<rparr>,
        \<lparr>rep_loc = \<lparr>line = 1, column = 8\<rparr>, rep_message = UNNECESSARY_SPACE_MESSAGE,
         rep_fix = removeRange 7 8\<rparr>] \<and>
   checkParenSpaces (ruleOf True [''(STRING)'']) fooTightSource = Completed [] \<and>
   checkParenSpaces (ruleOf False [''(STRING)'']) fooTightSource = Completed []"
proof -
  have spaced:
    "checkParenSpaces ((ruleOf False [''(STRING)''])\<lparr>ALWAYS := mode\<rparr>) fooSpacedSource =
     Completed
       [\<lparr>rep_loc = \<lparr>line = 1, column = 2\<rparr>, rep_message = UNNECESSARY_SPACE_MESSAGE,
         rep_fix = removeRange 1 2\<rparr>,
        \<lparr>rep_loc = \<lparr>line = 1, column = 8\<rparr>, rep_message = UNNECESSARY_SPACE_MESSAGE,
         rep_fix = removeRange 7 8\<rparr>]" for mode
    using string_in_paren_callbacks[of "ruleOf False [''(STRING)'']" fooSpacedSource
        "tokensAndComments fooSpacedSource" 0 mode]
    by (simp add: checkParenSpaces_def example_defs isSpaceBetweenTokens_def slice_def
        isWhitespace_def tok_start_def tok_end_def)
  have tight:
    "checkParenSpaces ((ruleOf False [''(STRING)''])\<lparr>ALWAYS := mode\<rparr>) fooTightSource =
     Completed []" for mode
    using string_in_paren_callbacks[of "ruleOf False [''(STRING)'']" fooTightSource
        "tokensAndComments fooTightSource" 0 mode]
    by (simp add: checkParenSpaces_def example_defs isSpaceBetweenTokens_def slice_def
        isWhitespace_def tok_start_def tok_end_def)
  from spaced[of True] spaced[of False] tight[of True] tight[of False] show ?thesis
    by (simp add: ruleOf_def)
qed

section \<open>The claims\<close>

text \<open>
  Claim C1. For every token stream the scan is claimed never to dereference out of bounds:
  where a token has no predecessor or successor, or the lookaround of the \<^verbatim>\<open>(STRING)\<close>
  exception reaches before the first or past the last token, it should report nothing for
  that position and not fail. The source has no such guard: \<^verbatim>\<open>tokens[i - 1]\<close> and
  \<^verbatim>\<open>tokens[i + 1]\<close> are \<^verbatim>\<open>undefined\<close> at the ends and their properties are read. With the
  \<^verbatim>\<open>(STRING)\<close> exception the program \<^verbatim>\<open>"use strict";\<close> throws at its first token, before
  any report; so do the truncated streams \<^verbatim>\<open>(\<close> and \<^verbatim>\<open>)\<close> without any exception.
\<close>

theorem scan_throws_at_stream_boundary:
  "checkParenSpaces (ruleOf False [''(STRING)'']) useStrictSource = Threw TypeError [] \<and>
   checkParenSpaces (ruleOf False []) loneOpenerSource = Threw TypeError [] \<and>
   checkParenSpaces (ruleOf False []) loneCloserSource = Threw TypeError []"
  by (simp add: scan_defs js_defs example_defs)

text \<open>
  Claim C2. With the \<^verbatim>\<open>(STRING)\<close> exception on, every \<^verbatim>\<open>(\<close>, string literal, \<^verbatim>\<open>)\<close> triple of
  every stream is claimed to get, under both modes, an unnecessary-space report for each of
  its gaps that holds whitespace. The callbacks at the triple do so, but the scan need not
  reach them: in the program \<^verbatim>\<open>"a"; ( "foo" )\<close> the triple is at the indices 2 to 4 and both
  its gaps hold a blank, the callback at its string would make the two reports, and under
  either mode the scan throws at index 0, where the condition of lines 266--271 reads
  \<^verbatim>\<open>prevToken.type\<close> of \<^verbatim>\<open>tokens[-1]\<close>, and reports nothing.
\<close>

theorem string_in_paren_not_reported_after_leading_string:
  \<open>parenStringException (rule_options (ruleOf True [''(STRING)''])) \<and>
   parenStringException (rule_options (ruleOf False [''(STRING)''])) \<and>
   map tok_type (tokensAndComments leadingStringSource) =
     [''String'', ''Punctuator'', ''Punctuator'', ''String'', ''Punctuator''] \<and>
   map tok_value (tokensAndComments leadingStringSource) =
     [''"a"'', '';'', ''('', ''"foo"'', '')''] \<and>
   isSpaceBetweenTokens leadingStringSource (tokensAndComments leadingStringSource ! 2)
     (tokensAndComments leadingStringSource ! 3) \<and>
   isSpaceBetweenTokens leadingStringSource (tokensAndComments leadingStringSource ! 3)
     (tokensAndComments leadingStringSource ! 4) \<and>
   checkToken (ruleOf True [''(STRING)'']) leadingStringSource
     (tokensAndComments leadingStringSource ! 3) 3 =
     Inr [\<lparr>rep_loc = \<lparr>line = 1, column = 7\<rparr>, rep_message = UNNECESSARY_SPACE_MESSAGE,
           rep_fix = removeRange 6 7\<rparr>,
          \<lparr>rep_loc = \<lparr>line = 1, column = 13\<rparr>, rep_message = UNNECESSARY_SPACE_MESSAGE,
           rep_fix = removeRange 12 13\<rparr>] \<and>
   checkToken (ruleOf True [''(STRING)'']) leadingStringSource
     (tokensAndComments leadingStringSource ! 0) 0 = Inl TypeError \<and>
   checkParenSpaces (ruleOf True [''(STRING)'']) leadingStringSource = Threw TypeError [] \<and>
   checkParenSpaces (ruleOf False [''(STRING)'']) leadingStringSource = Threw TypeError []\<close>
  by (simp add: scan_defs js_defs example_defs)

text \<open>
  Claim C3. For every opening paren and its immediate successor, \<^verbatim>\<open>shouldOpenerHaveSpace\<close>
  returns true exactly when: under mode "always", there is no space between them, the
  successor is not the punctuator \<^verbatim>\<open>)\<close>, and the successor is not an opener exception;
  under mode "never", there is no space between them and the successor is an opener
  exception.
\<close>

theorem opener_needs_space_iff:
  "shouldOpenerHaveSpace r sc openParen nextToken =
     (if ALWAYS r then
        \<not> isSpaceBetweenTokens sc openParen nextToken \<and>
        \<not> (tok_type nextToken = ''Punctuator'' \<and> tok_value nextToken = '')'') \<and>
        \<not> isOpenerException r nextToken
      else
        \<not> isSpaceBetweenTokens sc openParen nextToken \<and> isOpenerException r nextToken)"
  by (simp add: shouldOpenerHaveSpace_def)

text \<open>
  Claim C4. For every opening paren and its immediate successor, \<^verbatim>\<open>shouldOpenerRejectSpace\<close>
  returns true only when a space exists between them, the two are on the same line and the
  successor is not a line comment; under mode "always" the successor must then be an opener
  exception, under mode "never" it must not be one. These conditions are also sufficient.
  In particular a space across a line break after an opening paren is never rejected, under
  any mode and any exceptions.
\<close>

theorem opener_rejects_space_iff:
  "shouldOpenerRejectSpace r sc openParen nextToken =
     (isSpaceBetweenTokens sc openParen nextToken \<and>
      isTokenOnSameLine openParen nextToken \<and>
      tok_type nextToken \<noteq> ''Line'' \<and>
      (if ALWAYS r then isOpenerException r nextToken else \<not> isOpenerException r nextToken)) \<and>
   (\<not> isTokenOnSameLine openParen nextToken \<longrightarrow>
      \<not> shouldOpenerRejectSpace r sc openParen nextToken)"
  by (auto simp: shouldOpenerRejectSpace_def)

text \<open>
  An opening paren, a line break, then \<^verbatim>\<open>a)\<close>: the space is not rejected, with no
  exception under "never" and with every exception under "always".
\<close>

theorem opener_rejects_space_iff_witness:
  "isSpaceBetweenTokens lineBreakSource (tokensAndComments lineBreakSource ! 0)
     (tokensAndComments lineBreakSource ! 1) \<and>
   \<not> isTokenOnSameLine (tokensAndComments lineBreakSource ! 0)
     (tokensAndComments lineBreakSource ! 1) \<and>
   \<not> shouldOpenerRejectSpace (ruleOf False []) lineBreakSource
     (tokensAndComments lineBreakSource ! 0) (tokensAndComments lineBreakSource ! 1) \<and>
   \<not> shouldOpenerRejectSpace (ruleOf True [''{}'', ''[]'', ''()'', ''empty''])
     lineBreakSource
     (tokensAndComments lineBreakSource ! 0) (tokensAndComments lineBreakSource ! 1) \<and>
   checkParenSpaces (ruleOf False []) lineBreakSource = Completed []"
proof -
  have sp: "isSpaceBetweenTokens lineBreakSource (tokensAndComments lineBreakSource ! 0)
     (tokensAndComments lineBreakSource ! 1)"
    by (simp add: example_defs isSpaceBetweenTokens_def slice_def isWhitespace_def)
  have nl: "\<not> isTokenOnSameLine (tokensAndComments lineBreakSource ! 0)
     (tokensAndComments lineBreakSource ! 1)"
    by (simp add: example_defs isTokenOnSameLine_def)
  have scan: "checkParenSpaces (ruleOf False []) lineBreakSource = Completed []"
    by (simp add: scan_defs js_defs example_defs)
  from sp nl scan
    opener_rejects_space_iff[of "ruleOf False []" lineBreakSource
      "tokensAndComments lineBreakSource ! 0" "tokensAndComments lineBreakSource ! 1"]
    opener_rejects_space_iff[of "ruleOf True [''{}'', ''[]'', ''()'', ''empty'']"
      lineBreakSource
      "tokensAndComments lineBreakSource ! 0" "tokensAndComments lineBreakSource ! 1"]
  show ?thesis by blast
qed

text \<open>
  Claim C5 as stated fails: an empty pair written \<^verbatim>\<open>( )\<close> on one line, under mode "never"
  and with no exception, gets a rejected-space report at its opening paren.
\<close>

theorem empty_pair_counterexample:
  "checkParenSpaces (ruleOf False []) emptySpacedSource =
     Completed
       [\<lparr>rep_loc = \<lparr>line = 1, column = 0\<rparr>, rep_message = REJECTED_SPACE_MESSAGE,
         rep_fix = removeRange 1 2\<rparr>] \<and>
   \<not> opt_empty (rule_options (ruleOf False [])) \<and>
   map tok_value (tokensAndComments emptySpacedSource) = [''('', '')'']"
  by (simp add: scan_defs js_defs example_defs)

text \<open>
  Claim C5, amended. For an opening paren immediately followed by a closing paren, with the
  \<^verbatim>\<open>empty\<close> exception absent: the closing paren gets no report under either mode; the
  opening paren gets none under mode "always", and under mode "never" it gets a
  rejected-space report exactly when there is whitespace between the two parens on one line
  (none when they touch or a line break separates them). Both closer-side predicates are
  false whenever the token before the closing paren is the punctuator \<^verbatim>\<open>(\<close>.
\<close>

theorem empty_pair_reports:
  assumes "tokensAndComments sc = tokens"
    and "Suc i < length tokens"
    and "tok_type (tokens ! i) = ''Punctuator''" and "tok_value (tokens ! i) = ''(''"
    and "tok_type (tokens ! Suc i) = ''Punctuator''" and "tok_value (tokens ! Suc i) = '')''"
    and "\<not> opt_empty (rule_options r)"
  shows "checkToken r sc (tokens ! Suc i) (Suc i) = Inr [] \<and>
     checkToken r sc (tokens ! i) i =
       Inr (if \<not> ALWAYS r \<and> isSpaceBetweenTokens sc (tokens ! i) (tokens ! Suc i) \<and>
               isTokenOnSameLine (tokens ! i) (tokens ! Suc i)
            then [\<lparr>rep_loc = loc_start (tok_loc (tokens ! i)),
                   rep_message = REJECTED_SPACE_MESSAGE,
                   rep_fix = removeRange (snd (tok_range (tokens ! i)))
                     (fst (tok_range (tokens ! Suc i)))\<rparr>]
            else []) \<and>
     \<not> shouldCloserHaveSpace r' sc' (tokens ! i) closeParen \<and>
     \<not> shouldCloserRejectSpace r' sc' (tokens ! i) closeParen"
proof -
  have a0: "at tokens (int i) = Some (tokens ! i)" using assms(2) by (simp add: at_def)
  have a1: "at tokens (int i + 1) = Some (tokens ! Suc i)"
    using assms(2) by (simp add: at_def nat_add_distrib)
  have notOpener: "\<not> isOpenerException r (tokens ! Suc i)"
    using assms(6,7) by (simp add: isOpenerException_def getExceptions_def push_def Let_def)
  have b0: "at tokens (int (Suc i) - 1) = Some (tokens ! i)"
    using assms(2) by (simp add: at_def)
  have b1: "at tokens (int (Suc i)) = Some (tokens ! Suc i)" using assms(2) by (rule at_nth)
  have closer: "checkToken r sc (tokens ! Suc i) (Suc i) = Inr []"
    using assms b0 b1
    by (simp add: checkToken_def isStringInParen_def stringInParenAlreadyChecked_def js_defs
        checkParen_def shouldCloserHaveSpace_def shouldCloserRejectSpace_def)
  have opener: "checkToken r sc (tokens ! i) i =
       Inr (if \<not> ALWAYS r \<and> isSpaceBetweenTokens sc (tokens ! i) (tokens ! Suc i) \<and>
               isTokenOnSameLine (tokens ! i) (tokens ! Suc i)
            then [\<lparr>rep_loc = loc_start (tok_loc (tokens ! i)),
                   rep_message = REJECTED_SPACE_MESSAGE,
                   rep_fix = removeRange (snd (tok_range (tokens ! i)))
                     (fst (tok_range (tokens ! Suc i)))\<rparr>]
            else [])"
    using assms(1-6) a0 a1 notOpener
    by (simp add: checkToken_def isStringInParen_def stringInParenAlreadyChecked_def js_defs
        checkParen_def shouldOpenerHaveSpace_def shouldOpenerRejectSpace_def rejected_def)
  have short: "\<not> shouldCloserHaveSpace r' sc' (tokens ! i) closeParen"
    "\<not> shouldCloserRejectSpace r' sc' (tokens ! i) closeParen"
    using assms(3,4) by (simp_all add: shouldCloserHaveSpace_def shouldCloserRejectSpace_def)
  from closer opener short show ?thesis by simp
qed

theorem empty_pair_reports_witness:
  "checkToken (ruleOf True []) emptySpacedSource (tokensAndComments emptySpacedSource ! 0) 0 = Inr [] \<and>
   checkToken (ruleOf True []) emptySpacedSource (tokensAndComments emptySpacedSource ! 1) 1 = Inr [] \<and>
   checkToken (ruleOf False []) emptySpacedSource (tokensAndComments emptySpacedSource ! 1) 1 = Inr [] \<and>
   checkToken (ruleOf False []) emptySpacedSource (tokensAndComments emptySpacedSource ! 0) 0 =
     Inr [\<lparr>rep_loc = \<lparr>line = 1, column = 0\<rparr>, rep_message = REJECTED_SPACE_MESSAGE,
           rep_fix = removeRange 1 2\<rparr>]"
  using empty_pair_reports[of emptySpacedSource "tokensAndComments emptySpacedSource" 0
      "ruleOf True []"]
    empty_pair_reports[of emptySpacedSource "tokensAndComments emptySpacedSource" 0
      "ruleOf False []"]
  by (simp add: example_defs isSpaceBetweenTokens_def slice_def isWhitespace_def
      isTokenOnSameLine_def)

text \<open>
  Claim C6. \<^verbatim>\<open>getExceptions\<close> builds the two lists from the flags: the brace exception
  contributes \<^verbatim>\<open>{\<close> to the openers and \<^verbatim>\<open>}\<close> to the closers, the bracket exception \<^verbatim>\<open>[\<close>
  and \<^verbatim>\<open>]\<close>, the paren exception \<^verbatim>\<open>(\<close> and \<^verbatim>\<open>)\<close>, and the empty exception \<^verbatim>\<open>)\<close> to the
  openers and \<^verbatim>\<open>(\<close> to the closers; with every flag unset both lists are empty.
\<close>

theorem exception_sets_from_flags:
  "openers (getExceptions opts) =
     (if braceException opts then [''{''] else []) @
     (if bracketException opts then [''[''] else []) @
     (if parenException opts then [''(''] else []) @
     (if opt_empty opts then ['')''] else []) \<and>
   closers (getExceptions opts) =
     (if braceException opts then [''}''] else []) @
     (if bracketException opts then ['']''] else []) @
     (if parenException opts then ['')''] else []) @
     (if opt_empty opts then [''(''] else []) \<and>
   getExceptions noOptions = \<lparr>openers = [], closers = []\<rparr> \<and>
   getExceptions (optionsOf []) = \<lparr>openers = [], closers = []\<rparr>"
  by (simp add: getExceptions_def push_def optionsOf_def noOptions_def)

text \<open>
  Claim C7. For every paren token the general adjacency logic makes at most one report:
  the callback at a punctuator reports at most once, and so does \<open>checkParen\<close>; needs-space
  and rejects-space never hold together for the same pair of tokens (one requires that
  there is no space, the other that there is one); and needs-space is tested first, so
  when it holds the one report is the missing-space report.
\<close>

theorem at_most_one_report_per_paren:
  "(tok_type t = ''Punctuator'' \<and> checkToken r sc t i = Inr rs \<longrightarrow> length rs \<le> 1) \<and>
   (checkParen r sc prevToken t nextToken = Inr rs' \<longrightarrow> length rs' \<le> 1) \<and>
   \<not> (shouldOpenerHaveSpace r sc t n \<and> shouldOpenerRejectSpace r sc t n) \<and>
   \<not> (shouldCloserHaveSpace r sc p t \<and> shouldCloserRejectSpace r sc p t) \<and>
   (tok_type t = ''Punctuator'' \<and> tok_value t = ''('' \<and> shouldOpenerHaveSpace r sc t n \<longrightarrow>
      checkParen r sc prevToken t (Some n) = Inr [missingAfter t]) \<and>
   (tok_type t = ''Punctuator'' \<and> tok_value t = '')'' \<and> shouldCloserHaveSpace r sc p t \<longrightarrow>
      checkParen r sc (Some p) t nextToken = Inr [missingBefore t])"
proof -
  have one: "tok_type t = ''Punctuator'' \<and> checkToken r sc t i = Inr rs \<longrightarrow> length rs \<le> 1"
    using checkToken_punctuator_at_most_one[of t r sc i rs] by auto
  have two: "checkParen r sc prevToken t nextToken = Inr rs' \<longrightarrow> length rs' \<le> 1"
    using checkParen_at_most_one by blast
  have opener: "tok_type t = ''Punctuator'' \<and> tok_value t = ''('' \<and>
      shouldOpenerHaveSpace r sc t n \<longrightarrow>
      checkParen r sc prevToken t (Some n) = Inr [missingAfter t]"
    by (simp add: checkParen_def js_defs)
  have closer: "tok_type t = ''Punctuator'' \<and> tok_value t = '')'' \<and>
      shouldCloserHaveSpace r sc p t \<longrightarrow>
      checkParen r sc (Some p) t nextToken = Inr [missingBefore t]"
    by (simp add: checkParen_def js_defs)
  from one two opener closer needs_excludes_rejects_opener[of r sc t n]
    needs_excludes_rejects_closer[of r sc p t]
  show ?thesis by blast
qed

theorem at_most_one_report_per_paren_witness:
  "checkToken (ruleOf True []) identSource (tokensAndComments identSource ! 0) 0 =
     Inr [missingAfter (tokensAndComments identSource ! 0)] \<and>
   length [missingAfter (tokensAndComments identSource ! 0)] \<le> 1 \<and>
   shouldOpenerHaveSpace (ruleOf True []) identSource (tokensAndComments identSource ! 0)
     (tokensAndComments identSource ! 1) \<and>
   \<not> shouldOpenerRejectSpace (ruleOf True []) identSource (tokensAndComments identSource ! 0)
     (tokensAndComments identSource ! 1) \<and>
   checkToken (ruleOf True []) identSource (tokensAndComments identSource ! 2) 2 =
     Inr [missingBefore (tokensAndComments identSource ! 2)] \<and>
   shouldCloserHaveSpace (ruleOf True []) identSource (tokensAndComments identSource ! 1)
     (tokensAndComments identSource ! 2) \<and>
   \<not> shouldCloserRejectSpace (ruleOf True []) identSource (tokensAndComments identSource ! 1)
     (tokensAndComments identSource ! 2)"
proof -
  have c0: "checkToken (ruleOf True []) identSource (tokensAndComments identSource ! 0) 0 =
     Inr [missingAfter (tokensAndComments identSource ! 0)]"
    by (simp add: scan_defs js_defs example_defs)
  have c2: "checkToken (ruleOf True []) identSource (tokensAndComments identSource ! 2) 2 =
     Inr [missingBefore (tokensAndComments identSource ! 2)]"
    by (simp add: scan_defs js_defs example_defs)
  have o: "shouldOpenerHaveSpace (ruleOf True []) identSource (tokensAndComments identSource ! 0)
     (tokensAndComments identSource ! 1)"
    by (simp add: scan_defs js_defs example_defs)
  have c: "shouldCloserHaveSpace (ruleOf True []) identSource (tokensAndComments identSource ! 1)
     (tokensAndComments identSource ! 2)"
    by (simp add: scan_defs js_defs example_defs)
  from c0 c2 o c
    at_most_one_report_per_paren[of "tokensAndComments identSource ! 0" "ruleOf True []"
      identSource 0 "[missingAfter (tokensAndComments identSource ! 0)]" None None "[]"
      "tokensAndComments identSource ! 1" "tokensAndComments identSource ! 1"]
    at_most_one_report_per_paren[of "tokensAndComments identSource ! 2" "ruleOf True []"
      identSource 2 "[missingBefore (tokensAndComments identSource ! 2)]" None None "[]"
      "tokensAndComments identSource ! 1" "tokensAndComments identSource ! 1"]
  show ?thesis by simp
qed

text \<open>
  Claim C8. For each input of the spec's section 8 (\<^verbatim>\<open>()\<close> and \<^verbatim>\<open>( )\<close> under both modes,
  \<^verbatim>\<open>(a)\<close> under "always", \<^verbatim>\<open>( a )\<close> under "never", \<^verbatim>\<open>((a))\<close> under "always" with the
  \<^verbatim>\<open>()\<close> exception, \<^verbatim>\<open>("foo")\<close> and \<^verbatim>\<open>( "foo" )\<close> with the \<^verbatim>\<open>(STRING)\<close> exception under both
  modes): the scan completes, and scanning the text with all its fixes applied, under the
  same mode and exceptions, completes with no report. The fixed texts are those the spec
  names.
\<close>

theorem fix_round_trip_scenarios:
  \<open>roundTrip (ruleOf True []) ''()'' \<and> roundTrip (ruleOf False []) ''()'' \<and>
   roundTrip (ruleOf True []) ''( )'' \<and> roundTrip (ruleOf False []) ''( )'' \<and>
   roundTrip (ruleOf True []) ''(a)'' \<and>
   fixedText (ruleOf True []) ''(a)'' = Some ''( a )'' \<and>
   roundTrip (ruleOf False []) ''( a )'' \<and>
   fixedText (ruleOf False []) ''( a )'' = Some ''(a)'' \<and>
   roundTrip (ruleOf True [''()'']) ''((a))'' \<and>
   fixedText (ruleOf True [''()'']) ''((a))'' = Some ''(( a ))'' \<and>
   roundTrip (ruleOf True [''(STRING)'']) ''("foo")'' \<and>
   roundTrip (ruleOf False [''(STRING)'']) ''("foo")'' \<and>
   roundTrip (ruleOf True [''(STRING)'']) ''( "foo" )'' \<and>
   fixedText (ruleOf True [''(STRING)'']) ''( "foo" )'' = Some ''("foo")'' \<and>
   roundTrip (ruleOf False [''(STRING)'']) ''( "foo" )'' \<and>
   fixedText (ruleOf False [''(STRING)'']) ''( "foo" )'' = Some ''("foo")''\<close>
  by code_simp

text \<open>
  Claim C9 as stated fails on the location: for \<^verbatim>\<open>( "foo" )\<close> the two reports are at
  1:2 and 1:8, where the string and the closing paren start; the gaps start at 1:1 and 1:7,
  where the opening paren and the string end.
\<close>

theorem string_gap_location_counterexample:
  "checkToken (ruleOf False [''(STRING)'']) fooSpacedSource
     (tokensAndComments fooSpacedSource ! 1) 1 =
     Inr [\<lparr>rep_loc = \<lparr>line = 1, column = 2\<rparr>, rep_message = UNNECESSARY_SPACE_MESSAGE,
           rep_fix = removeRange 1 2\<rparr>,
          \<lparr>rep_loc = \<lparr>line = 1, column = 8\<rparr>, rep_message = UNNECESSARY_SPACE_MESSAGE,
           rep_fix = removeRange 7 8\<rparr>] \<and>
   loc_end (tok_loc (tokensAndComments fooSpacedSource ! 0)) = \<lparr>line = 1, column = 1\<rparr> \<and>
   loc_end (tok_loc (tokensAndComments fooSpacedSource ! 1)) = \<lparr>line = 1, column = 7\<rparr> \<and>
   \<lparr>line = 1, column = 2\<rparr> \<noteq> loc_end (tok_loc (tokensAndComments fooSpacedSource ! 0)) \<and>
   \<lparr>line = 1, column = 8\<rparr> \<noteq> loc_end (tok_loc (tokensAndComments fooSpacedSource ! 1))"
  by (simp add: scan_defs js_defs example_defs)

text \<open>
  Claim C9, amended. For every \<^verbatim>\<open>(\<close>, string, \<^verbatim>\<open>)\<close> triple with the \<^verbatim>\<open>(STRING)\<close> exception
  on, the report for a gap that holds whitespace is located at the start of the token on
  the gap's right side (the string for the first gap, the closing paren for the second),
  and its fix removes exactly the range from the left token's end offset to the right
  token's start offset; the callback at the string makes no other report.
\<close>

theorem string_gap_report_location_and_fix:
  assumes "parenStringException (rule_options r)"
    and "tokensAndComments sc = tokens"
    and "Suc (Suc i) < length tokens"
    and "tok_type (tokens ! i) = ''Punctuator''" and "tok_value (tokens ! i) = ''(''"
    and "tok_type (tokens ! Suc i) = ''String''"
    and "tok_type (tokens ! Suc (Suc i)) = ''Punctuator''"
    and "tok_value (tokens ! Suc (Suc i)) = '')''"
  shows "\<exists>rs. checkToken r sc (tokens ! Suc i) (Suc i) = Inr rs \<and>
     (isSpaceBetweenTokens sc (tokens ! i) (tokens ! Suc i) \<longrightarrow>
        \<lparr>rep_loc = loc_start (tok_loc (tokens ! Suc i)),
         rep_message = UNNECESSARY_SPACE_MESSAGE,
         rep_fix = removeRange (tok_end (tokens ! i)) (tok_start (tokens ! Suc i))\<rparr> \<in> set rs) \<and>
     (isSpaceBetweenTokens sc (tokens ! Suc i) (tokens ! Suc (Suc i)) \<longrightarrow>
        \<lparr>rep_loc = loc_start (tok_loc (tokens ! Suc (Suc i))),
         rep_message = UNNECESSARY_SPACE_MESSAGE,
         rep_fix = removeRange (tok_end (tokens ! Suc i))
           (tok_start (tokens ! Suc (Suc i)))\<rparr> \<in> set rs) \<and>
     set rs \<subseteq>
       {\<lparr>rep_loc = loc_start (tok_loc (tokens ! Suc i)),
         rep_message = UNNECESSARY_SPACE_MESSAGE,
         rep_fix = removeRange (tok_end (tokens ! i)) (tok_start (tokens ! Suc i))\<rparr>,
        \<lparr>rep_loc = loc_start (tok_loc (tokens ! Suc (Suc i))),
         rep_message = UNNECESSARY_SPACE_MESSAGE,
         rep_fix = removeRange (tok_end (tokens ! Suc i))
           (tok_start (tokens ! Suc (Suc i)))\<rparr>}"
proof -
  have "checkToken r sc (tokens ! Suc i) (Suc i) =
      Inr (checkStringInParen sc (tokens ! i) (tokens ! Suc i) (tokens ! Suc (Suc i)))"
    using assms by (rule triple_string)
  then show ?thesis by (auto simp: checkStringInParen_def)
qed

theorem string_gap_report_location_and_fix_witness:
  "\<exists>rs. checkToken (ruleOf True [''(STRING)'']) fooSpacedSource
       (tokensAndComments fooSpacedSource ! 1) 1 = Inr rs \<and>
     \<lparr>rep_loc = \<lparr>line = 1, column = 2\<rparr>, rep_message = UNNECESSARY_SPACE_MESSAGE,
       rep_fix = removeRange 1 2\<rparr> \<in> set rs \<and>
     \<lparr>rep_loc = \<lparr>line = 1, column = 8\<rparr>, rep_message = UNNECESSARY_SPACE_MESSAGE,
       rep_fix = removeRange 7 8\<rparr> \<in> set rs"
  using string_gap_report_location_and_fix[of "ruleOf True [''(STRING)'']" fooSpacedSource
      "tokensAndComments fooSpacedSource" 0]
  by (auto simp: example_defs isSpaceBetweenTokens_def slice_def isWhitespace_def
      tok_start_def tok_end_def)

text \<open>
  Claim C10. The line-comment guard of \<^verbatim>\<open>shouldOpenerRejectSpace\<close> is for line comments
  only: where an opening paren is followed on the same line by a block comment with a space
  between them, under mode "never" with no exceptions, the callback at the paren makes the
  rejected-space report whose fix removes that space, and a scan that completes holds it.
\<close>

theorem block_comment_space_rejected:
  assumes "tokensAndComments sc = tokens"
    and "Suc i < length tokens"
    and "tok_type (tokens ! i) = ''Punctuator''" and "tok_value (tokens ! i) = ''(''"
    and "tok_type (tokens ! Suc i) = ''Block''"
    and "isTokenOnSameLine (tokens ! i) (tokens ! Suc i)"
    and "isSpaceBetweenTokens sc (tokens ! i) (tokens ! Suc i)"
    and "\<not> ALWAYS r" and "rule_options r = optionsOf []"
  shows "checkToken r sc (tokens ! i) i =
       Inr [\<lparr>rep_loc = loc_start (tok_loc (tokens ! i)),
             rep_message = REJECTED_SPACE_MESSAGE,
             rep_fix = removeRange (snd (tok_range (tokens ! i)))
               (fst (tok_range (tokens ! Suc i)))\<rparr>] \<and>
     (\<forall>ds. checkParenSpaces r sc = Completed ds \<longrightarrow>
        \<lparr>rep_loc = loc_start (tok_loc (tokens ! i)),
         rep_message = REJECTED_SPACE_MESSAGE,
         rep_fix = removeRange (snd (tok_range (tokens ! i)))
           (fst (tok_range (tokens ! Suc i)))\<rparr> \<in> set ds)"
proof -
  have a1: "at tokens (int i + 1) = Some (tokens ! Suc i)"
    using assms(2) by (simp add: at_def nat_add_distrib)
  have notException: "\<not> isOpenerException r (tokens ! Suc i)"
    using assms(5) by (simp add: isOpenerException_def)
  have pos: "checkToken r sc (tokens ! i) i =
       Inr [\<lparr>rep_loc = loc_start (tok_loc (tokens ! i)),
             rep_message = REJECTED_SPACE_MESSAGE,
             rep_fix = removeRange (snd (tok_range (tokens ! i)))
               (fst (tok_range (tokens ! Suc i)))\<rparr>]"
    using assms a1 notException
    by (simp add: checkToken_def isStringInParen_def js_defs optionsOf_def noOptions_def
        checkParen_def shouldOpenerHaveSpace_def shouldOpenerRejectSpace_def rejected_def)
  have len: "i < length (tokensAndComments sc)" using assms(1,2) by simp
  have "\<lparr>rep_loc = loc_start (tok_loc (tokens ! i)),
         rep_message = REJECTED_SPACE_MESSAGE,
         rep_fix = removeRange (snd (tok_range (tokens ! i)))
           (fst (tok_range (tokens ! Suc i)))\<rparr> \<in> set ds"
    if "checkParenSpaces r sc = Completed ds" for ds
    using scan_reports[OF that len] pos assms(1) by simp
  with pos show ?thesis by simp
qed

theorem block_comment_space_rejected_witness:
  "checkParenSpaces (ruleOf False []) blockCommentSource =
     Completed [\<lparr>rep_loc = \<lparr>line = 1, column = 0\<rparr>, rep_message = REJECTED_SPACE_MESSAGE,
       rep_fix = removeRange 1 2\<rparr>] \<and>
   checkToken (ruleOf False []) blockCommentSource (tokensAndComments blockCommentSource ! 0) 0 =
     Inr [\<lparr>rep_loc = \<lparr>line = 1, column = 0\<rparr>, rep_message = REJECTED_SPACE_MESSAGE,
       rep_fix = removeRange 1 2\<rparr>]"
proof -
  have scan: "checkParenSpaces (ruleOf False []) blockCommentSource =
     Completed [\<lparr>rep_loc = \<lparr>line = 1, column = 0\<rparr>, rep_message = REJECTED_SPACE_MESSAGE,
       rep_fix = removeRange 1 2\<rparr>]"
    by (simp add: scan_defs js_defs example_defs)
  have "checkToken (ruleOf False []) blockCommentSource (tokensAndComments blockCommentSource ! 0) 0 =
     Inr [\<lparr>rep_loc = \<lparr>line = 1, column = 0\<rparr>, rep_message = REJECTED_SPACE_MESSAGE,
       rep_fix = removeRange 1 2\<rparr>]"
    using block_comment_space_rejected[of blockCommentSource
        "tokensAndComments blockCommentSource" 0 "ruleOf False []"]
    by (simp add: example_defs isSpaceBetweenTokens_def slice_def isWhitespace_def
        isTokenOnSameLine_def)
  with scan show ?thesis by simp
qed

end
